theory Spec2Isabelle
  imports Complex_Main "HOL-Library.Sublist"
begin

section \<open>Actuator control and sensor integration: the embedded program\<close>

text \<open>
  The development embeds \<^verbatim>\<open>docs/examples/cpp/actuator_sensor_control.cpp\<close>.

  Numeric conventions. A C++ \<^verbatim>\<open>double\<close> is read as a real number: rounding, infinities
  and NaN are outside the model. The calls \<^verbatim>\<open>sin\<close>, \<^verbatim>\<open>cos\<close>, \<^verbatim>\<open>sqrt\<close> and \<^verbatim>\<open>atan2\<close>
  are the real functions of those names. The calls of \<^verbatim>\<open>abs\<close> are unqualified and the
  file includes \<^verbatim>\<open><cmath>\<close> without a using-directive, so they are calls of the C
  library's \<^verbatim>\<open>int abs(int)\<close>: the \<^verbatim>\<open>double\<close> argument is first converted to an integer,
  which drops its fractional part (\<open>abs_int\<close> below). The one division whose divisor is an argument of a public
  method, the division by \<^verbatim>\<open>dt\<close> in \<^verbatim>\<open>JointController::update\<close>, is a branch of the model:
  with a zero divisor the quotient is an infinity or NaN and not a real number, and
  \<^verbatim>\<open>update\<close> has the result \<open>Inl DivisionByZero\<close> when such a quotient is what it commands.
  Console output is left out.

  Environment. \<^verbatim>\<open>Utils::get_time()\<close> and \<^verbatim>\<open>steady_clock::now()\<close> are inputs: every
  \<^verbatim>\<open>read()\<close> takes the clock values its calls would return. The function-local
  \<^verbatim>\<open>static int noise_counter\<close> of \<^verbatim>\<open>Sensor::addNoise\<close> is threaded through as an
  unbounded integer. Mutexes and the one millisecond sleep of \<^verbatim>\<open>setTorque\<close> have no
  effect on the values computed and are left out.
\<close>

datatype error = DivisionByZero

subsection \<open>Data structures for sensor readings\<close>

record JointState =
  position :: real
  velocity :: real
  torque :: real
  temperature :: real
  timestamp :: real

definition JointState_init :: "real \<Rightarrow> JointState" where
  "JointState_init now =
     \<lparr>position = 0, velocity = 0, torque = 0, temperature = 25, timestamp = now\<rparr>"

text \<open>The arrays \<^verbatim>\<open>double[4]\<close> and \<^verbatim>\<open>double[3]\<close> are tuples, in index order.\<close>

type_synonym vec4 = "real \<times> real \<times> real \<times> real"
type_synonym vec3 = "real \<times> real \<times> real"

record ImuData =
  orientation :: vec4
  angular_velocity :: vec3
  linear_acceleration :: vec3
  imu_timestamp :: real

definition ImuData_init :: "real \<Rightarrow> ImuData" where
  "ImuData_init now =
     \<lparr>orientation = (0, 0, 0, 1), angular_velocity = (0, 0, 0),
      linear_acceleration = (0, 0, 9.81), imu_timestamp = now\<rparr>"

text \<open>
  The clock values one \<^verbatim>\<open>read()\<close> consumes: its three calls of \<^verbatim>\<open>Utils::get_time()\<close>,
  in program order, and the \<^verbatim>\<open>steady_clock::now()\<close> of the time stamp.
\<close>

record clock_reads =
  get_time1 :: real
  get_time2 :: real
  get_time3 :: real
  steady_now :: real

subsection \<open>The absolute value the program calls\<close>

text \<open>
  The conversion of a \<^verbatim>\<open>double\<close> to \<^verbatim>\<open>int\<close> truncates toward zero. \<^verbatim>\<open>abs(x)\<close> with a
  \<^verbatim>\<open>double\<close> argument is the absolute value of the truncated argument, converted back to
  \<^verbatim>\<open>double\<close> where it is compared or multiplied. The integers are unbounded here: a
  value beyond the range of \<^verbatim>\<open>int\<close> has no defined conversion.
\<close>

definition trunc_int :: "real \<Rightarrow> int" where
  "trunc_int x = (if 0 \<le> x then \<lfloor>x\<rfloor> else \<lceil>x\<rceil>)"

definition abs_int :: "real \<Rightarrow> real" where
  "abs_int x = real_of_int \<bar>trunc_int x\<bar>"

subsection \<open>Sensors\<close>

record Sensor =
  name :: string
  noise_level :: real
  is_connected :: bool

definition Sensor_init :: "string \<Rightarrow> real \<Rightarrow> Sensor" where
  "Sensor_init nm nl = \<lparr>name = nm, noise_level = nl, is_connected = True\<rparr>"

definition isConnected :: "'a Sensor_scheme \<Rightarrow> bool" where
  "isConnected s = is_connected s"

definition getName :: "'a Sensor_scheme \<Rightarrow> string" where
  "getName s = name s"

text \<open>\<^verbatim>\<open>addNoise\<close> returns the noisy value and the new value of the static counter.\<close>

definition addNoise :: "'a Sensor_scheme \<Rightarrow> real \<Rightarrow> int \<Rightarrow> real \<times> int" where
  "addNoise s val noise_counter =
     (if noise_level s \<le> 0 then (val, noise_counter)
      else let nc = noise_counter + 1
           in (val + noise_level s * sin (real_of_int nc * 0.1), nc))"

record JointSensor = Sensor +
  state :: JointState

definition JointSensor_init :: "string \<Rightarrow> real \<Rightarrow> real \<Rightarrow> JointSensor" where
  "JointSensor_init nm nl now =
     \<lparr>name = nm, noise_level = nl, is_connected = True, state = JointState_init now\<rparr>"

definition JointSensor_read :: "clock_reads \<Rightarrow> int \<Rightarrow> JointSensor \<Rightarrow> JointSensor \<times> int" where
  "JointSensor_read clk nc0 s =
     (let st = state s;
          (p, nc1) = addNoise s (position st + 0.01 * sin (get_time1 clk)) nc0;
          (v, nc2) = addNoise s (velocity st + 0.001 * cos (get_time2 clk)) nc1;
          (tq, nc3) = addNoise s (torque st + 0.05 * sin (get_time3 clk * 2)) nc2;
          (tm, nc4) = addNoise s (temperature st + 0.0001 * abs_int tq) nc3
      in (s\<lparr>state := \<lparr>position = p, velocity = v, torque = tq, temperature = tm,
                       timestamp = steady_now clk\<rparr>\<rparr>, nc4))"

definition getState :: "JointSensor \<Rightarrow> JointState" where
  "getState s = state s"

definition setState :: "JointState \<Rightarrow> JointSensor \<Rightarrow> JointSensor" where
  "setState st s = s\<lparr>state := st\<rparr>"

record ImuSensor = Sensor +
  data :: ImuData

definition ImuSensor_init :: "string \<Rightarrow> real \<Rightarrow> real \<Rightarrow> ImuSensor" where
  "ImuSensor_init nm nl now =
     \<lparr>name = nm, noise_level = nl, is_connected = True, data = ImuData_init now\<rparr>"

definition quat_norm :: "vec4 \<Rightarrow> real" where
  "quat_norm q = (case q of (q0, q1, q2, q3) \<Rightarrow> sqrt (q0 * q0 + q1 * q1 + q2 * q2 + q3 * q3))"

definition ImuSensor_read :: "clock_reads \<Rightarrow> int \<Rightarrow> ImuSensor \<Rightarrow> ImuSensor \<times> int" where
  "ImuSensor_read clk nc0 s =
     (let d = data s;
          (w0, w1, w2) = angular_velocity d;
          (a0, a1, a2) = linear_acceleration d;
          (q0, q1, q2, q3) = orientation d;
          (w0', nc1) = addNoise s (0.1 * sin (get_time1 clk)) nc0;
          (w1', nc2) = addNoise s (0.05 * sin (get_time2 clk * 1.5)) nc1;
          (a2', nc3) = addNoise s (9.81 + 0.1 * cos (get_time3 clk * 0.5)) nc2;
          dt = 0.01;
          q0' = q0 + w0' * dt * 0.5;
          q1' = q1 + w1' * dt * 0.5;
          norm = quat_norm (q0', q1', q2, q3);
          q' = (if norm > 0 then (q0' / norm, q1' / norm, q2 / norm, q3 / norm)
                else (q0', q1', q2, q3))
      in (s\<lparr>data := \<lparr>orientation = q', angular_velocity = (w0', w1', w2),
                      linear_acceleration = (a0, a1, a2'), imu_timestamp = steady_now clk\<rparr>\<rparr>,
          nc3))"

definition getData :: "ImuSensor \<Rightarrow> ImuData" where
  "getData s = data s"

subsection \<open>Actuator\<close>

record Actuator =
  actuator_name :: string
  current_torque :: real
  max_torque :: real
  gear_ratio :: real
  efficiency :: real

definition Actuator_init :: "string \<Rightarrow> real \<Rightarrow> real \<Rightarrow> Actuator" where
  "Actuator_init nm max_t gear =
     \<lparr>actuator_name = nm, current_torque = 0, max_torque = max_t, gear_ratio = gear,
      efficiency = 0.9\<rparr>"

text \<open>
  \<^verbatim>\<open>std::clamp(v, lo, hi)\<close> by its defining expression. The standard leaves the call
  undefined when \<open>hi < lo\<close>; statements about it carry \<open>lo \<le> hi\<close>.
\<close>

definition std_clamp :: "real \<Rightarrow> real \<Rightarrow> real \<Rightarrow> real" where
  "std_clamp v lo hi = (if v < lo then lo else if hi < v then hi else v)"

definition setTorque :: "real \<Rightarrow> Actuator \<Rightarrow> bool \<times> Actuator" where
  "setTorque trq a =
     (let trq' = std_clamp trq (- max_torque a) (max_torque a)
      in (True, a\<lparr>current_torque := trq'\<rparr>))"

definition getTorque :: "Actuator \<Rightarrow> real" where
  "getTorque a = current_torque a"

definition getMaxTorque :: "Actuator \<Rightarrow> real" where
  "getMaxTorque a = max_torque a"

subsection \<open>Joint controller\<close>

record JointController =
  controller_name :: string
  actuator :: Actuator
  position_sensor :: JointSensor
  torque_sensor :: JointSensor
  target_position :: real
  target_velocity :: real
  kp :: real
  ki :: real
  kd :: real
  error_sum :: real
  last_error :: real
  min_position :: real
  max_position :: real
  max_temperature :: real
  max_velocity :: real
  enabled :: bool

text \<open>
  The constructor; \<open>now_pos\<close> and \<open>now_trq\<close> are the clock values that stamp the initial
  states of the two sensors.
\<close>

definition JointController_init :: "string \<Rightarrow> real \<Rightarrow> real \<Rightarrow> JointController" where
  "JointController_init nm now_pos now_trq =
     \<lparr>controller_name = nm,
      actuator = Actuator_init (nm @ ''_actuator'') 50 100,
      position_sensor = JointSensor_init (nm @ ''_pos'') 0.001 now_pos,
      torque_sensor = JointSensor_init (nm @ ''_torque'') 0.01 now_trq,
      target_position = 0, target_velocity = 0,
      kp = 100, ki = 10, kd = 5,
      error_sum = 0, last_error = 0,
      min_position = - pi, max_position = pi,
      max_temperature = 70, max_velocity = 5,
      enabled = False\<rparr>"

definition initialize :: "JointController \<Rightarrow> bool \<times> JointController" where
  "initialize c = (True, c\<lparr>enabled := True\<rparr>)"

text \<open>
  A division of doubles. With a zero divisor the quotient is an infinity or NaN, which is
  not a real number: the result is \<open>None\<close>, and stays \<open>None\<close> through the sums and
  products it enters.
\<close>

definition fdiv :: "real \<Rightarrow> real \<Rightarrow> real option" where
  "fdiv x y = (if y = 0 then None else Some (x / y))"

text \<open>
  What one call of \<^verbatim>\<open>update\<close> leaves behind: the controller, the static noise counter,
  and the argument of its call of \<^verbatim>\<open>actuator_.setTorque\<close> (\<open>None\<close> when it returns
  without that call).
\<close>

record update_result =
  controller :: JointController
  noise_counter :: int
  commanded :: "real option"

definition update :: "real \<Rightarrow> clock_reads \<Rightarrow> int \<Rightarrow> JointController \<Rightarrow> error + update_result" where
  "update dt clk nc c =
     (if \<not> enabled c then Inr \<lparr>controller = c, noise_counter = nc, commanded = None\<rparr>
      else
        let (ps, nc') = JointSensor_read clk nc (position_sensor c);
            st = getState ps;
            error = target_position c - position st;
            esum = error_sum c + error * dt;
            error_derivative = fdiv (error - last_error c) dt;
            torque_command =
              map_option (\<lambda>d. kp c * error + ki c * esum + kd c * d) error_derivative;
            torque_command =
              (if abs_int (velocity st) > max_velocity c then Some 0 else torque_command);
            torque_command =
              (if temperature st > max_temperature c * 0.9
               then map_option (\<lambda>t. t * 0.5) torque_command else torque_command)
        in case torque_command of
             None \<Rightarrow> Inl DivisionByZero
           | Some tc \<Rightarrow>
               let (ok, act) = setTorque tc (actuator c);
                   st' = st\<lparr>torque := tc\<rparr>
               in Inr \<lparr>controller = c\<lparr>actuator := act,
                                        position_sensor := setState st' ps,
                                        error_sum := esum, last_error := error\<rparr>,
                       noise_counter = nc', commanded = Some tc\<rparr>)"

definition setTargetPosition :: "real \<Rightarrow> JointController \<Rightarrow> JointController" where
  "setTargetPosition p c = c\<lparr>target_position := std_clamp p (min_position c) (max_position c)\<rparr>"

definition JointController_getState :: "JointController \<Rightarrow> JointState" where
  "JointController_getState c = getState (position_sensor c)"

definition isEnabled :: "JointController \<Rightarrow> bool" where
  "isEnabled c = enabled c"

definition isSafe :: "JointController \<Rightarrow> bool" where
  "isSafe c =
     (let st = JointController_getState c
      in temperature st < max_temperature c \<and>
         abs_int (velocity st) < max_velocity c \<and>
         abs_int (position st) \<le> max_position c \<and>
         abs_int (position st) \<ge> min_position c)"

text \<open>
  The joint state that \<^verbatim>\<open>update\<close> measures: what \<^verbatim>\<open>position_sensor_.getState()\<close> returns
  after the \<^verbatim>\<open>position_sensor_.read()\<close> at the start of the call.
\<close>

definition measured :: "clock_reads \<Rightarrow> int \<Rightarrow> JointController \<Rightarrow> JointState" where
  "measured clk nc c = getState (fst (JointSensor_read clk nc (position_sensor c)))"

subsection \<open>Sequences of IMU reads\<close>

text \<open>
  The states an IMU sensor reaches: \<^verbatim>\<open>read()\<close> called any number of times on the sensor
  as constructed. Each call has its own clock values and finds the static noise counter
  at some value (other sensors advance it in between).
\<close>

text \<open>The component \<^verbatim>\<open>orientation[3]\<close> of a quaternion.\<close>

definition q3_of :: "vec4 \<Rightarrow> real" where
  "q3_of q = (case q of (q0, q1, q2, q3) \<Rightarrow> q3)"

fun ImuSensor_reads :: "(clock_reads \<times> int) list \<Rightarrow> ImuSensor \<Rightarrow> ImuSensor" where
  "ImuSensor_reads [] s = s"
| "ImuSensor_reads ((clk, nc) # rest) s = ImuSensor_reads rest (fst (ImuSensor_read clk nc s))"

subsection \<open>Sensor fusion\<close>

record SensorFusion =
  joint_states :: "string \<rightharpoonup> JointState"
  imu_data :: "string \<rightharpoonup> ImuData"
  balance_estimate :: real
  confidence :: real

definition SensorFusion_init :: SensorFusion where
  "SensorFusion_init =
     \<lparr>joint_states = Map.empty, imu_data = Map.empty, balance_estimate = 0, confidence = 1\<rparr>"

text \<open>
  \<^verbatim>\<open>s.find(pat)\<close> of \<^verbatim>\<open>std::string\<close>: the index of the first occurrence of \<open>pat\<close> in \<open>s\<close>,
  and \<open>None\<close> for \<^verbatim>\<open>npos\<close>.
\<close>

fun string_find :: "string \<Rightarrow> string \<Rightarrow> nat option" where
  "string_find [] pat = (if pat = [] then Some 0 else None)"
| "string_find (c # cs) pat =
     (if prefix pat (c # cs) then Some 0 else map_option Suc (string_find cs pat))"

text \<open>\<^verbatim>\<open>atan2(y, x)\<close> of the C library, on real numbers.\<close>

definition atan2 :: "real \<Rightarrow> real \<Rightarrow> real" where
  "atan2 y x =
     (if x > 0 then arctan (y / x)
      else if x < 0 then (if y \<ge> 0 then arctan (y / x) + pi else arctan (y / x) - pi)
      else if y > 0 then pi / 2
      else if y < 0 then - (pi / 2)
      else 0)"

definition updateBalanceEstimate :: "real \<Rightarrow> SensorFusion \<Rightarrow> SensorFusion" where
  "updateBalanceEstimate joint_position f =
     (let new_estimate = joint_position
      in f\<lparr>balance_estimate := 0.7 * balance_estimate f + 0.3 * new_estimate\<rparr>)"

text \<open>The local variable \<^verbatim>\<open>roll\<close> of \<^verbatim>\<open>updateBalanceEstimateFromImu\<close>.\<close>

definition roll_of :: "vec4 \<Rightarrow> real" where
  "roll_of q =
     (case q of (q0, q1, q2, q3) \<Rightarrow>
        atan2 (2.0 * (q3 * q0 + q1 * q2)) (1.0 - 2.0 * (q0 * q0 + q1 * q1)))"

definition updateBalanceEstimateFromImu :: "vec4 \<Rightarrow> SensorFusion \<Rightarrow> SensorFusion" where
  "updateBalanceEstimateFromImu q f =
     (let roll = roll_of q
      in f\<lparr>balance_estimate := 0.8 * balance_estimate f + 0.2 * roll\<rparr>)"

definition updateJointState :: "string \<Rightarrow> JointState \<Rightarrow> SensorFusion \<Rightarrow> SensorFusion" where
  "updateJointState joint_name st f =
     (let f' = f\<lparr>joint_states := (joint_states f)(joint_name \<mapsto> st)\<rparr>
      in if string_find joint_name ''hip'' \<noteq> None then updateBalanceEstimate (position st) f'
         else f')"

definition updateImuData :: "string \<Rightarrow> ImuData \<Rightarrow> SensorFusion \<Rightarrow> SensorFusion" where
  "updateImuData sensor_name d f =
     (let f' = f\<lparr>imu_data := (imu_data f)(sensor_name \<mapsto> d)\<rparr>
      in updateBalanceEstimateFromImu (orientation d) f')"

definition getBalanceEstimate :: "SensorFusion \<Rightarrow> real" where
  "getBalanceEstimate f = balance_estimate f"

definition getJointStates :: "SensorFusion \<Rightarrow> (string \<rightharpoonup> JointState)" where
  "getJointStates f = joint_states f"

subsection \<open>Safety monitor\<close>

text \<open>
  The monitor holds pointers to controllers and sensors that other code owns and changes.
  A pointer is an address, and the objects behind the addresses are a store that every
  call of \<^verbatim>\<open>checkSafety\<close> is given as it stands at that moment. All registered pointers are
  taken to be valid.
\<close>

record store =
  controller_at :: "nat \<Rightarrow> JointController"
  joint_sensor_at :: "nat \<Rightarrow> JointSensor"
  imu_sensor_at :: "nat \<Rightarrow> ImuSensor"

record SafetyMonitor =
  controllers :: "nat list"
  joint_sensors :: "nat list"
  imu_sensors :: "nat list"
  emergency_stop_active :: bool

definition SafetyMonitor_init :: SafetyMonitor where
  "SafetyMonitor_init =
     \<lparr>controllers = [], joint_sensors = [], imu_sensors = [], emergency_stop_active = False\<rparr>"

definition addController :: "nat \<Rightarrow> SafetyMonitor \<Rightarrow> SafetyMonitor" where
  "addController p m = m\<lparr>controllers := controllers m @ [p]\<rparr>"

definition addJointSensor :: "nat \<Rightarrow> SafetyMonitor \<Rightarrow> SafetyMonitor" where
  "addJointSensor p m = m\<lparr>joint_sensors := joint_sensors m @ [p]\<rparr>"

definition addImuSensor :: "nat \<Rightarrow> SafetyMonitor \<Rightarrow> SafetyMonitor" where
  "addImuSensor p m = m\<lparr>imu_sensors := imu_sensors m @ [p]\<rparr>"

text \<open>
  The three loops of \<^verbatim>\<open>checkSafety\<close>: each is \<open>False\<close> when the loop leaves through its
  \<^verbatim>\<open>return false\<close>, at the first element that fails, and \<open>True\<close> when it runs to its end.
\<close>

fun controllers_safe :: "store \<Rightarrow> nat list \<Rightarrow> bool" where
  "controllers_safe h [] = True"
| "controllers_safe h (p # ps) =
     (if \<not> isSafe (controller_at h p) then False else controllers_safe h ps)"

fun joint_sensors_connected :: "store \<Rightarrow> nat list \<Rightarrow> bool" where
  "joint_sensors_connected h [] = True"
| "joint_sensors_connected h (p # ps) =
     (if \<not> isConnected (joint_sensor_at h p) then False else joint_sensors_connected h ps)"

fun imu_sensors_connected :: "store \<Rightarrow> nat list \<Rightarrow> bool" where
  "imu_sensors_connected h [] = True"
| "imu_sensors_connected h (p # ps) =
     (if \<not> isConnected (imu_sensor_at h p) then False else imu_sensors_connected h ps)"

definition checkSafety :: "store \<Rightarrow> SafetyMonitor \<Rightarrow> bool \<times> SafetyMonitor" where
  "checkSafety h m =
     (if emergency_stop_active m then (False, m)
      else if \<not> controllers_safe h (controllers m)
           then (False, m\<lparr>emergency_stop_active := True\<rparr>)
      else if \<not> joint_sensors_connected h (joint_sensors m) then (False, m)
      else if \<not> imu_sensors_connected h (imu_sensors m) then (False, m)
      else (True, m))"

definition isEmergencyStopActive :: "SafetyMonitor \<Rightarrow> bool" where
  "isEmergencyStopActive m = emergency_stop_active m"

definition triggerEmergencyStop :: "SafetyMonitor \<Rightarrow> SafetyMonitor" where
  "triggerEmergencyStop m = m\<lparr>emergency_stop_active := True\<rparr>"

text \<open>
  A run of the monitor is a sequence of calls of its public methods; a call of
  \<^verbatim>\<open>checkSafety\<close> comes with the store as it is when the call is made.
\<close>

datatype monitor_call =
    AddController nat
  | AddJointSensor nat
  | AddImuSensor nat
  | CheckSafety store
  | IsEmergencyStopActive
  | TriggerEmergencyStop

fun monitor_step :: "monitor_call \<Rightarrow> SafetyMonitor \<Rightarrow> SafetyMonitor" where
  "monitor_step (AddController p) m = addController p m"
| "monitor_step (AddJointSensor p) m = addJointSensor p m"
| "monitor_step (AddImuSensor p) m = addImuSensor p m"
| "monitor_step (CheckSafety h) m = snd (checkSafety h m)"
| "monitor_step IsEmergencyStopActive m = m"
| "monitor_step TriggerEmergencyStop m = triggerEmergencyStop m"

fun monitor_run :: "monitor_call list \<Rightarrow> SafetyMonitor \<Rightarrow> SafetyMonitor" where
  "monitor_run [] m = m"
| "monitor_run (c # cs) m = monitor_run cs (monitor_step c m)"

subsection \<open>Example objects\<close>

text \<open>
  Concrete inputs for the instances below: a clock whose readings are all zero, the
  controller of the left hip as \<^verbatim>\<open>HumanoidController\<close> builds and initialises it, the same
  controller with a given state in its position sensor, and a clock reading at which the
  simulated drift and the first noise sample of the position sensor cancel.
\<close>

definition clock0 :: clock_reads where
  "clock0 = \<lparr>get_time1 = 0, get_time2 = 0, get_time3 = 0, steady_now = 0\<rparr>"

definition left_hip :: JointController where
  "left_hip = snd (initialize (JointController_init ''left_hip'' 0 0))"

definition left_hip_at :: "JointState \<Rightarrow> JointController" where
  "left_hip_at st = left_hip\<lparr>position_sensor := setState st (position_sensor left_hip)\<rparr>"


text \<open>
  A store in which every controller is the left hip at rest and every sensor is as
  constructed, a monitor with one controller, one joint sensor and one IMU registered, the
  store with the controller overheated, the store with the joint sensor disconnected, and
  an IMU sample rolled by a tenth of a radian.
\<close>

definition store0 :: store where
  "store0 = \<lparr>controller_at = (\<lambda>p. left_hip),
              joint_sensor_at = (\<lambda>p. JointSensor_init ''left_hip_pos_sensor'' 0.01 0),
              imu_sensor_at = (\<lambda>p. ImuSensor_init ''torso_imu'' 0.001 0)\<rparr>"

definition monitor1 :: SafetyMonitor where
  "monitor1 = addImuSensor 0 (addJointSensor 0 (addController 0 SafetyMonitor_init))"

definition store_hot :: store where
  "store_hot = store0\<lparr>controller_at := (\<lambda>p. left_hip_at ((JointState_init 0)\<lparr>temperature := 80\<rparr>))\<rparr>"

definition store_unplugged :: store where
  "store_unplugged =
     store0\<lparr>joint_sensor_at := (\<lambda>p. (JointSensor_init ''left_hip_pos_sensor'' 0.01 0)\<lparr>is_connected := False\<rparr>)\<rparr>"

definition imu_tilted :: ImuData where
  "imu_tilted = (ImuData_init 0)\<lparr>orientation := (sin (1 / 20), 0, 0, cos (1 / 20))\<rparr>"

section \<open>Properties\<close>

subsection \<open>Actuator torque limits\<close>

text \<open>
  Claim C3. For every torque value passed to \<^verbatim>\<open>Actuator::setTorque\<close>, the torque the
  actuator stores (what \<^verbatim>\<open>getTorque\<close> returns) lies within
  \<open>[- max_torque, + max_torque]\<close>, and a value already within these limits is stored
  unchanged. The call always reports success and does not change the limit. The
  actuator's limit is taken non-negative, which is what \<^verbatim>\<open>std::clamp\<close> requires of its
  bounds.
\<close>

theorem setTorque_within_limits:
  assumes "0 \<le> max_torque a"
  shows "fst (setTorque c a) = True
       \<and> max_torque (snd (setTorque c a)) = max_torque a
       \<and> - max_torque a \<le> getTorque (snd (setTorque c a))
       \<and> getTorque (snd (setTorque c a)) \<le> max_torque a
       \<and> (- max_torque a \<le> c \<and> c \<le> max_torque a \<longrightarrow> getTorque (snd (setTorque c a)) = c)"
  using assms by (simp add: setTorque_def getTorque_def std_clamp_def)

theorem setTorque_within_limits_witness:
  "0 \<le> max_torque (Actuator_init ''left_hip_actuator'' 50 100)
   \<and> getTorque (snd (setTorque 600 (Actuator_init ''left_hip_actuator'' 50 100))) = 50
   \<and> getTorque (snd (setTorque (- 600) (Actuator_init ''left_hip_actuator'' 50 100))) = - 50
   \<and> getTorque (snd (setTorque 12.5 (Actuator_init ''left_hip_actuator'' 50 100))) = 12.5"
  using setTorque_within_limits [of "Actuator_init ''left_hip_actuator'' 50 100" 600]
  by (simp add: setTorque_def getTorque_def std_clamp_def Actuator_init_def)

subsection \<open>The truncating absolute value\<close>

lemma abs_int_floor: "abs_int x = real_of_int \<lfloor>\<bar>x\<bar>\<rfloor>"
proof (cases "0 \<le> x")
  case True
  then have "0 \<le> \<lfloor>x\<rfloor>" by simp
  with True show ?thesis by (simp add: abs_int_def trunc_int_def)
next
  case False
  then have "\<lceil>x\<rceil> \<le> 0" by (simp add: ceiling_le_iff)
  with False show ?thesis by (simp add: abs_int_def trunc_int_def ceiling_def)
qed

lemma abs_int_nonneg: "0 \<le> abs_int x"
  by (simp add: abs_int_def)

lemma abs_int_le_abs: "abs_int x \<le> \<bar>x\<bar>"
  by (simp add: abs_int_floor)

lemma abs_int_between:
  assumes "real_of_int n \<le> \<bar>x\<bar>" and "\<bar>x\<bar> < real_of_int n + 1"
  shows "abs_int x = real_of_int n"
proof -
  have "\<lfloor>\<bar>x\<bar>\<rfloor> = n" using assms by (simp add: floor_eq_iff)
  then show ?thesis by (simp add: abs_int_floor)
qed

lemma abs_int_small: "\<bar>x\<bar> < 1 \<Longrightarrow> abs_int x = 0"
  using abs_int_between [of 0 x] by simp

subsection \<open>One step of the joint controller\<close>

text \<open>
  For an enabled controller \<^verbatim>\<open>update\<close> is a function of the measured state: the stages
  of the torque command, written out.
\<close>

lemma update_enabled:
  assumes "enabled c"
  shows "update dt clk nc c =
    (let st = measured clk nc c;
         ps = fst (JointSensor_read clk nc (position_sensor c));
         nc' = snd (JointSensor_read clk nc (position_sensor c));
         error = target_position c - position st;
         esum = error_sum c + error * dt;
         pid = map_option (\<lambda>d. kp c * error + ki c * esum + kd c * d) (fdiv (error - last_error c) dt);
         lim = (if abs_int (velocity st) > max_velocity c then Some 0 else pid);
         der = (if temperature st > max_temperature c * 0.9 then map_option (\<lambda>t. t * 0.5) lim else lim)
     in case der of None \<Rightarrow> Inl DivisionByZero
        | Some tc \<Rightarrow> Inr \<lparr>controller = c\<lparr>actuator := snd (setTorque tc (actuator c)),
                                        position_sensor := setState (st\<lparr>torque := tc\<rparr>) ps,
                                        error_sum := esum, last_error := error\<rparr>,
                       noise_counter = nc', commanded = Some tc\<rparr>)"
  using assms
  by (simp add: update_def measured_def Let_def split_beta split: option.splits)

lemma update_disabled:
  "\<not> enabled c \<Longrightarrow> update dt clk nc c = Inr \<lparr>controller = c, noise_counter = nc, commanded = None\<rparr>"
  by (simp add: update_def)

text \<open>The measurement of a sensor with a positive noise level, field by field.\<close>

lemma measured_noisy:
  assumes "noise_level (position_sensor c) > 0"
  shows "measured clk nc c =
     (let s = position_sensor c; st = state s; nl = noise_level s;
          tq = torque st + 0.05 * sin (get_time3 clk * 2) + nl * sin ((real_of_int nc + 3) * 0.1)
      in \<lparr>position = position st + 0.01 * sin (get_time1 clk) + nl * sin ((real_of_int nc + 1) * 0.1),
          velocity = velocity st + 0.001 * cos (get_time2 clk) + nl * sin ((real_of_int nc + 2) * 0.1),
          torque = tq,
          temperature = temperature st + 0.0001 * abs_int tq + nl * sin ((real_of_int nc + 4) * 0.1),
          timestamp = steady_now clk\<rparr>)"
  using assms
  by (simp add: measured_def JointSensor_read_def getState_def addNoise_def Let_def add.commute)

lemma left_hip_simps:
  "enabled left_hip" "kp left_hip = 100" "ki left_hip = 10" "kd left_hip = 5"
  "target_position left_hip = 0" "error_sum left_hip = 0" "last_error left_hip = 0"
  "max_velocity left_hip = 5" "max_temperature left_hip = 70"
  "min_position left_hip = - pi" "max_position left_hip = pi"
  "max_torque (actuator left_hip) = 50"
  "noise_level (position_sensor left_hip) = 1 / 1000"
  "state (position_sensor left_hip) = JointState_init 0"
  by (simp_all add: left_hip_def initialize_def JointController_init_def Actuator_init_def
        JointSensor_init_def)

lemma measured_left_hip:
  "measured clock0 0 left_hip =
     \<lparr>position = sin (1 / 10) / 1000,
      velocity = 1 / 1000 + sin (2 / 10) / 1000,
      torque = sin (3 / 10) / 1000,
      temperature = 25 + abs_int (sin (3 / 10) / 1000) / 10000 + sin (4 / 10) / 1000,
      timestamp = 0\<rparr>"
  by (simp add: measured_noisy left_hip_simps Let_def JointState_init_def clock0_def)

lemma left_hip_at_simps:
  "enabled (left_hip_at st)" "kp (left_hip_at st) = 100" "ki (left_hip_at st) = 10"
  "kd (left_hip_at st) = 5" "target_position (left_hip_at st) = 0"
  "error_sum (left_hip_at st) = 0" "last_error (left_hip_at st) = 0"
  "max_velocity (left_hip_at st) = 5" "max_temperature (left_hip_at st) = 70"
  "max_torque (actuator (left_hip_at st)) = 50"
  "noise_level (position_sensor (left_hip_at st)) = 1 / 1000"
  "state (position_sensor (left_hip_at st)) = st"
  by (simp_all add: left_hip_at_def left_hip_simps setState_def)

lemma measured_left_hip_at:
  "measured clock0 0 (left_hip_at st) =
     \<lparr>position = position st + sin (1 / 10) / 1000,
      velocity = velocity st + 1 / 1000 + sin (2 / 10) / 1000,
      torque = torque st + sin (3 / 10) / 1000,
      temperature = temperature st + abs_int (torque st + sin (3 / 10) / 1000) / 10000 + sin (4 / 10) / 1000,
      timestamp = 0\<rparr>"
  by (simp add: measured_noisy left_hip_at_simps Let_def clock0_def)


lemma abs_int_noise: "abs_int (sin x / 1000) = 0"
proof -
  have "\<bar>sin x / 1000\<bar> \<le> 1 / 1000"
    using abs_sin_le_one [of x] by simp
  then show ?thesis by (intro abs_int_small) linarith
qed

lemma sin_tenth_pos: "0 < sin (1 / 10 :: real)"
  using pi_ge_two by (intro sin_gt_zero) simp_all

text \<open>
  A step with the interlock and the derating both off: the raw PID output is commanded,
  recorded in the joint state, and clamped by the actuator.
\<close>

lemma update_plain:
  assumes "enabled c" and "dt \<noteq> 0"
    and "\<not> abs_int (velocity (measured clk nc c)) > max_velocity c"
    and "\<not> temperature (measured clk nc c) > max_temperature c * 0.9"
  shows "\<exists>r. update dt clk nc c = Inr r
           \<and> commanded r = Some (kp c * (target_position c - position (measured clk nc c))
                 + ki c * (error_sum c + (target_position c - position (measured clk nc c)) * dt)
                 + kd c * ((target_position c - position (measured clk nc c) - last_error c) / dt))
           \<and> torque (JointController_getState (controller r))
               = kp c * (target_position c - position (measured clk nc c))
                 + ki c * (error_sum c + (target_position c - position (measured clk nc c)) * dt)
                 + kd c * ((target_position c - position (measured clk nc c) - last_error c) / dt)
           \<and> actuator (controller r)
               = snd (setTorque (kp c * (target_position c - position (measured clk nc c))
                 + ki c * (error_sum c + (target_position c - position (measured clk nc c)) * dt)
                 + kd c * ((target_position c - position (measured clk nc c) - last_error c) / dt))
                   (actuator c))"
  using assms
  by (simp add: update_enabled Let_def fdiv_def JointController_getState_def getState_def
        setState_def)

text \<open>The left hip at rest, read at the zero clock: slow and cool.\<close>

lemma left_hip_slow: "\<not> abs_int (velocity (measured clock0 0 left_hip)) > max_velocity left_hip"
proof -
  have "\<bar>1 / 1000 + sin (1 / 5 :: real) / 1000\<bar> < 1"
    using sin_ge_minus_one [of "1 / 5 :: real"] sin_le_one [of "1 / 5 :: real"] by linarith
  then have "abs_int (1 / 1000 + sin (1 / 5 :: real) / 1000) = 0" by (rule abs_int_small)
  then show ?thesis by (simp add: measured_left_hip left_hip_simps)
qed

lemma left_hip_cool:
  "\<not> temperature (measured clock0 0 left_hip) > max_temperature left_hip * 0.9"
proof -
  have "25 + sin (2 / 5 :: real) / 1000 \<le> 63"
    using sin_le_one [of "2 / 5 :: real"] by linarith
  then show ?thesis by (simp add: measured_left_hip left_hip_simps abs_int_noise)
qed

lemma left_hip_slow_abs: "\<bar>velocity (measured clock0 0 left_hip)\<bar> \<le> max_velocity left_hip"
proof -
  have "\<bar>1 / 1000 + sin (1 / 5 :: real) / 1000\<bar> \<le> 5"
    using sin_ge_minus_one [of "1 / 5 :: real"] sin_le_one [of "1 / 5 :: real"] by linarith
  then show ?thesis by (simp add: measured_left_hip left_hip_simps)
qed



subsection \<open>Velocity interlock\<close>

text \<open>The interlock as coded: it fires on the truncated velocity.\<close>

lemma velocity_interlock_as_coded:
  assumes "enabled c" and "abs_int (velocity (measured clk nc c)) > max_velocity c"
  shows "\<exists>r. update dt clk nc c = Inr r \<and> commanded r = Some 0"
  using assms by (simp add: update_enabled Let_def)

text \<open>
  Claim C2. For every call of \<^verbatim>\<open>JointController::update(dt)\<close> on an enabled controller in
  which the measured joint velocity satisfies \<open>\<bar>velocity\<bar> > max_velocity\<close>, the torque
  commanded to the actuator is exactly 0. The program does not do this: the left hip with
  a stored velocity of 5.5 measures a velocity between 5.5 and 5.502, above the limit 5,
  but \<^verbatim>\<open>abs\<close> truncates it to 5, the comparison \<^verbatim>\<open>5 > 5.0\<close> fails, and the full PID output
  is commanded.
\<close>

theorem velocity_interlock_truncates:
  "enabled (left_hip_at ((JointState_init 0)\<lparr>velocity := 5.5\<rparr>))
   \<and> max_velocity (left_hip_at ((JointState_init 0)\<lparr>velocity := 5.5\<rparr>))
       < \<bar>velocity (measured clock0 0 (left_hip_at ((JointState_init 0)\<lparr>velocity := 5.5\<rparr>)))\<bar>
   \<and> (\<exists>r. update (1 / 100) clock0 0 (left_hip_at ((JointState_init 0)\<lparr>velocity := 5.5\<rparr>)) = Inr r
          \<and> commanded r = Some (- (6001 / 10) * (sin (1 / 10) / 1000))
          \<and> commanded r \<noteq> Some 0)"
proof -
  let ?c = "left_hip_at ((JointState_init 0)\<lparr>velocity := 5.5\<rparr>)"
  have en: "enabled ?c" by (simp add: left_hip_at_simps)
  have v: "velocity (measured clock0 0 ?c) = 5501 / 1000 + sin (1 / 5) / 1000"
    by (simp add: measured_left_hip_at JointState_init_def)
  have b: "5 \<le> \<bar>5501 / 1000 + sin (1 / 5 :: real) / 1000\<bar>"
          "\<bar>5501 / 1000 + sin (1 / 5 :: real) / 1000\<bar> < 6"
    using sin_ge_minus_one [of "1 / 5 :: real"] sin_le_one [of "1 / 5 :: real"] by linarith+
  have a: "abs_int (5501 / 1000 + sin (1 / 5 :: real) / 1000) = 5"
    using abs_int_between [of 5 "5501 / 1000 + sin (1 / 5 :: real) / 1000"] b by simp
  have b': "5 < \<bar>5501 / 1000 + sin (1 / 5 :: real) / 1000\<bar>"
    using sin_ge_minus_one [of "1 / 5 :: real"] by linarith
  have fast: "max_velocity ?c < \<bar>velocity (measured clock0 0 ?c)\<bar>"
    unfolding v using b' by (simp add: left_hip_at_simps)
  have off: "\<not> abs_int (velocity (measured clock0 0 ?c)) > max_velocity ?c"
    unfolding v by (simp add: a left_hip_at_simps)
  have "25 + sin (2 / 5 :: real) / 1000 \<le> 63"
    using sin_le_one [of "2 / 5 :: real"] by linarith
  then have cool: "\<not> temperature (measured clock0 0 ?c) > max_temperature ?c * 0.9"
    by (simp add: measured_left_hip_at JointState_init_def left_hip_at_simps abs_int_noise)
  have dt: "(1 / 100 :: real) \<noteq> 0" by simp
  have p: "position (measured clock0 0 ?c) = sin (1 / 10) / 1000"
    by (simp add: measured_left_hip_at JointState_init_def)
  from update_plain [OF en dt off cool]
  obtain r where r: "update (1 / 100) clock0 0 ?c = Inr r"
    "commanded r = Some (kp ?c * (target_position ?c - position (measured clock0 0 ?c))
        + ki ?c * (error_sum ?c + (target_position ?c - position (measured clock0 0 ?c)) * (1 / 100))
        + kd ?c * ((target_position ?c - position (measured clock0 0 ?c) - last_error ?c) / (1 / 100)))"
    by blast
  from r(2) have c: "commanded r = Some (- (6001 / 10) * (sin (1 / 10) / 1000))"
    unfolding p by (simp add: left_hip_at_simps)
  have "commanded r \<noteq> Some 0"
    using sin_tenth_pos by (simp add: c)
  with en fast r(1) c show ?thesis by blast
qed

subsection \<open>Thermal derating\<close>



subsection \<open>Zero error, zero torque\<close>




subsection \<open>The step size zero\<close>

text \<open>
  Claim C6 says that \<^verbatim>\<open>update\<close> guards against \<open>dt = 0\<close>. It does not: the controller
  as constructed and initialised, called with \<open>dt = 0\<close>, divides by zero and hands the
  quotient on as the torque command.
\<close>

theorem update_division_by_zero_counterexample:
  "update 0 clock0 0 left_hip = Inl DivisionByZero"
  using left_hip_slow
  by (simp add: update_enabled left_hip_simps Let_def fdiv_def)

text \<open>
  Claim C6, as amended. \<^verbatim>\<open>update(dt)\<close> has no guard on \<open>dt\<close>: an enabled controller always
  divides by it. With \<open>dt = 0\<close> and a measured velocity within the limit, the quotient of
  the division by zero becomes the torque command. A disabled controller returns before
  the division, and a step other than zero divides by a non-zero number.
\<close>

theorem update_division_by_zero:
  "(enabled c \<and> dt = 0 \<and> \<bar>velocity (measured clk nc c)\<bar> \<le> max_velocity c
      \<longrightarrow> update dt clk nc c = Inl DivisionByZero)
   \<and> (dt \<noteq> 0 \<longrightarrow> update dt clk nc c \<noteq> Inl DivisionByZero)
   \<and> (\<not> enabled c \<longrightarrow> update dt clk nc c \<noteq> Inl DivisionByZero)"
proof (intro conjI impI)
  assume a: "enabled c \<and> dt = 0 \<and> \<bar>velocity (measured clk nc c)\<bar> \<le> max_velocity c"
  then have "abs_int (velocity (measured clk nc c)) \<le> max_velocity c"
    using abs_int_le_abs [of "velocity (measured clk nc c)"] by linarith
  with a show "update dt clk nc c = Inl DivisionByZero"
    by (simp add: update_enabled Let_def fdiv_def)
next
  assume "dt \<noteq> 0"
  then show "update dt clk nc c \<noteq> Inl DivisionByZero"
    by (cases "enabled c")
       (auto simp add: update_enabled update_disabled Let_def fdiv_def split: option.splits)
next
  assume "\<not> enabled c"
  then show "update dt clk nc c \<noteq> Inl DivisionByZero"
    by (simp add: update_disabled)
qed

theorem update_division_by_zero_witness:
  "enabled left_hip
   \<and> \<bar>velocity (measured clock0 0 left_hip)\<bar> \<le> max_velocity left_hip
   \<and> update 0 clock0 0 left_hip = Inl DivisionByZero
   \<and> (1 / 100 :: real) \<noteq> 0
   \<and> update (1 / 100) clock0 0 left_hip \<noteq> Inl DivisionByZero
   \<and> \<not> enabled (JointController_init ''left_hip'' 0 0)
   \<and> update 0 clock0 0 (JointController_init ''left_hip'' 0 0) \<noteq> Inl DivisionByZero"
proof -
  have d: "\<not> enabled (JointController_init ''left_hip'' 0 0)"
    by (simp add: JointController_init_def)
  have dt: "(1 / 100 :: real) \<noteq> 0" by simp
  from update_division_by_zero [of left_hip 0 clock0 0] left_hip_simps(1) left_hip_slow_abs
  have 1: "update 0 clock0 0 left_hip = Inl DivisionByZero" by blast
  from update_division_by_zero [of left_hip "1 / 100" clock0 0] dt
  have 2: "update (1 / 100) clock0 0 left_hip \<noteq> Inl DivisionByZero" by blast
  from update_division_by_zero [of "JointController_init ''left_hip'' 0 0" 0 clock0 0] d
  have 3: "update 0 clock0 0 (JointController_init ''left_hip'' 0 0) \<noteq> Inl DivisionByZero"
    by blast
  show ?thesis
    using 1 2 3 d left_hip_simps(1) left_hip_slow_abs by simp
qed

subsection \<open>The torque recorded in the joint state\<close>

text \<open>
  Claim C10. After every call of \<^verbatim>\<open>JointController::update(dt)\<close> on an enabled controller,
  the torque field of the joint state stored in the position sensor is the torque command
  as computed after the velocity interlock and the thermal derating and before the
  actuator's clamp, while the actuator stores the clamped command. So the stored joint
  torque can exceed the actuator's limit although the actuator's own torque does not:
  it does for the left hip after \<^verbatim>\<open>setTargetPosition(1)\<close>.
\<close>

theorem stored_torque_is_unclamped_command:
  "(\<forall>dt clk nc c r. enabled c \<and> update dt clk nc c = Inr r \<longrightarrow>
      (\<exists>tc. commanded r = Some tc
         \<and> torque (JointController_getState (controller r)) = tc
         \<and> getTorque (actuator (controller r))
             = std_clamp tc (- max_torque (actuator c)) (max_torque (actuator c))
         \<and> (dt \<noteq> 0 \<longrightarrow>
             tc = (let st = measured clk nc c;
                       error = target_position c - position st;
                       pid = kp c * error + ki c * (error_sum c + error * dt)
                             + kd c * ((error - last_error c) / dt);
                       lim = (if abs_int (velocity st) > max_velocity c then 0 else pid)
                   in if temperature st > max_temperature c * 0.9 then lim * 0.5 else lim))))
   \<and> (\<exists>r. update (1 / 100) clock0 0 (setTargetPosition 1 left_hip) = Inr r
         \<and> torque (JointController_getState (controller r)) > getMaxTorque (actuator (controller r))
         \<and> - getMaxTorque (actuator (controller r)) \<le> getTorque (actuator (controller r))
         \<and> getTorque (actuator (controller r)) \<le> getMaxTorque (actuator (controller r)))"
proof (intro conjI allI impI)
  fix dt clk nc c r
  assume a: "enabled c \<and> update dt clk nc c = Inr r"
  then have en: "enabled c" and up: "update dt clk nc c = Inr r" by simp_all
  show "\<exists>tc. commanded r = Some tc
         \<and> torque (JointController_getState (controller r)) = tc
         \<and> getTorque (actuator (controller r))
             = std_clamp tc (- max_torque (actuator c)) (max_torque (actuator c))
         \<and> (dt \<noteq> 0 \<longrightarrow>
             tc = (let st = measured clk nc c;
                       error = target_position c - position st;
                       pid = kp c * error + ki c * (error_sum c + error * dt)
                             + kd c * ((error - last_error c) / dt);
                       lim = (if abs_int (velocity st) > max_velocity c then 0 else pid)
                   in if temperature st > max_temperature c * 0.9 then lim * 0.5 else lim))"
    using up
    by (auto simp add: update_enabled [OF en] Let_def fdiv_def JointController_getState_def
          getState_def setState_def setTorque_def getTorque_def split: option.splits if_splits)
next
  let ?c = "left_hip\<lparr>target_position := 1\<rparr>"
  have c_eq: "setTargetPosition 1 left_hip = ?c"
    using pi_ge_two by (simp add: setTargetPosition_def std_clamp_def left_hip_simps)
  have m: "measured clock0 0 ?c = measured clock0 0 left_hip"
    by (simp add: measured_def)
  have en: "enabled ?c" by (simp add: left_hip_simps)
  have dt: "(1 / 100 :: real) \<noteq> 0" by simp
  have slow: "\<not> abs_int (velocity (measured clock0 0 ?c)) > max_velocity ?c"
    using left_hip_slow by (simp add: m)
  have cool: "\<not> temperature (measured clock0 0 ?c) > max_temperature ?c * 0.9"
    using left_hip_cool by (simp add: m)
  from update_plain [OF en dt slow cool]
  obtain r where r: "update (1 / 100) clock0 0 ?c = Inr r"
    and tq: "torque (JointController_getState (controller r))
        = kp ?c * (target_position ?c - position (measured clock0 0 ?c))
          + ki ?c * (error_sum ?c + (target_position ?c - position (measured clock0 0 ?c)) * (1 / 100))
          + kd ?c * ((target_position ?c - position (measured clock0 0 ?c) - last_error ?c) / (1 / 100))"
    and act: "actuator (controller r)
        = snd (setTorque (kp ?c * (target_position ?c - position (measured clock0 0 ?c))
          + ki ?c * (error_sum ?c + (target_position ?c - position (measured clock0 0 ?c)) * (1 / 100))
          + kd ?c * ((target_position ?c - position (measured clock0 0 ?c) - last_error ?c) / (1 / 100)))
            (actuator ?c))"
    by blast
  have tq': "torque (JointController_getState (controller r))
               = (6001 / 10) * (1 - sin (1 / 10) / 1000)"
    by (simp add: tq m measured_left_hip left_hip_simps algebra_simps)
  have big: "(50 :: real) < (6001 / 10) * (1 - sin (1 / 10) / 1000)"
    by (simp add: algebra_simps) (use sin_le_one [of "1 / 10 :: real"] in linarith)
  have mx: "getMaxTorque (actuator (controller r)) = 50"
    by (simp add: act getMaxTorque_def setTorque_def left_hip_simps)
  have lim: "- 50 \<le> getTorque (actuator (controller r))" "getTorque (actuator (controller r)) \<le> 50"
    by (simp_all add: act getTorque_def setTorque_def std_clamp_def left_hip_simps)
  show "\<exists>r. update (1 / 100) clock0 0 (setTargetPosition 1 left_hip) = Inr r
         \<and> torque (JointController_getState (controller r)) > getMaxTorque (actuator (controller r))
         \<and> - getMaxTorque (actuator (controller r)) \<le> getTorque (actuator (controller r))
         \<and> getTorque (actuator (controller r)) \<le> getMaxTorque (actuator (controller r))"
    unfolding c_eq using r tq' big mx lim by auto
qed

theorem stored_torque_is_unclamped_command_witness:
  "enabled (setTargetPosition 1 left_hip)
   \<and> (\<exists>r tc. update (1 / 100) clock0 0 (setTargetPosition 1 left_hip) = Inr r
         \<and> commanded r = Some tc
         \<and> torque (JointController_getState (controller r)) = tc
         \<and> getMaxTorque (actuator (controller r)) < tc
         \<and> getTorque (actuator (controller r)) = std_clamp tc (- 50) 50)"
proof -
  let ?c = "setTargetPosition 1 left_hip"
  have en: "enabled ?c" by (simp add: setTargetPosition_def left_hip_simps)
  have mt: "max_torque (actuator ?c) = 50" by (simp add: setTargetPosition_def left_hip_simps)
  from stored_torque_is_unclamped_command
  obtain r where r: "update (1 / 100) clock0 0 ?c = Inr r"
    "torque (JointController_getState (controller r)) > getMaxTorque (actuator (controller r))"
    by blast
  from stored_torque_is_unclamped_command en r(1)
  obtain tc where tc: "commanded r = Some tc"
    "torque (JointController_getState (controller r)) = tc"
    "getTorque (actuator (controller r))
       = std_clamp tc (- max_torque (actuator ?c)) (max_torque (actuator ?c))"
    by blast
  show ?thesis using en r tc by (simp add: mt)
qed

subsection \<open>The emergency-stop latch\<close>

text \<open>Each loop of \<^verbatim>\<open>checkSafety\<close> runs to its end exactly when no element fails.\<close>

lemma controllers_safe_iff: "controllers_safe h ps \<longleftrightarrow> (\<forall>p\<in>set ps. isSafe (controller_at h p))"
  by (induction ps) simp_all

lemma joint_sensors_connected_iff:
  "joint_sensors_connected h ps \<longleftrightarrow> (\<forall>p\<in>set ps. isConnected (joint_sensor_at h p))"
  by (induction ps) simp_all

lemma imu_sensors_connected_iff:
  "imu_sensors_connected h ps \<longleftrightarrow> (\<forall>p\<in>set ps. isConnected (imu_sensor_at h p))"
  by (induction ps) simp_all

lemma monitor_step_keeps_latch:
  "emergency_stop_active m \<Longrightarrow> emergency_stop_active (monitor_step c m)"
  by (cases c)
     (simp_all add: addController_def addJointSensor_def addImuSensor_def checkSafety_def
        triggerEmergencyStop_def)

lemma monitor_run_keeps_latch:
  "emergency_stop_active m \<Longrightarrow> emergency_stop_active (monitor_run cs m)"
  by (induction cs arbitrary: m) (simp_all add: monitor_step_keeps_latch)

lemma checkSafety_latched: "emergency_stop_active m \<Longrightarrow> checkSafety h m = (False, m)"
  by (simp add: checkSafety_def)

lemma abs_int_zero: "abs_int 0 = 0"
  by (simp add: abs_int_def trunc_int_def)

lemma isSafe_left_hip: "isSafe left_hip"
  by (simp add: isSafe_def JointController_getState_def getState_def left_hip_simps
        JointState_init_def abs_int_zero)

lemma not_isSafe_hot: "\<not> isSafe (left_hip_at ((JointState_init 0)\<lparr>temperature := 80\<rparr>))"
  by (simp add: isSafe_def JointController_getState_def getState_def left_hip_at_simps
        JointState_init_def abs_int_zero)

lemma monitor1_simps:
  "controllers monitor1 = [0]" "joint_sensors monitor1 = [0]" "imu_sensors monitor1 = [0]"
  "emergency_stop_active monitor1 = False"
  by (simp_all add: monitor1_def addController_def addJointSensor_def addImuSensor_def
        SafetyMonitor_init_def)

lemma checkSafety_store0: "\<not> emergency_stop_active m \<Longrightarrow> controllers m = [0] \<Longrightarrow>
    joint_sensors m = [0] \<Longrightarrow> imu_sensors m = [0] \<Longrightarrow> checkSafety store0 m = (True, m)"
  by (simp add: checkSafety_def store0_def isSafe_left_hip isConnected_def
        JointSensor_init_def ImuSensor_init_def)

text \<open>
  Claim C1. Once the \<^verbatim>\<open>isSafe()\<close> of a registered controller is false during a call of
  \<^verbatim>\<open>checkSafety()\<close>, that call reports unsafe and so does every later call of
  \<^verbatim>\<open>checkSafety()\<close> in the run, whatever the controllers and sensors have become by then
  and whatever public methods of the monitor are called in between: no method of the
  monitor clears the emergency stop.
\<close>

theorem emergency_stop_latches:
  assumes "\<exists>p\<in>set (controllers m). \<not> isSafe (controller_at h p)"
  shows "fst (checkSafety h m) = False
       \<and> emergency_stop_active (snd (checkSafety h m))
       \<and> (\<forall>calls h'.
            emergency_stop_active (monitor_run calls (snd (checkSafety h m)))
          \<and> fst (checkSafety h' (monitor_run calls (snd (checkSafety h m)))) = False)"
proof -
  have unsafe: "\<not> controllers_safe h (controllers m)"
    using assms by (simp add: controllers_safe_iff)
  then have now: "fst (checkSafety h m) = False" and l: "emergency_stop_active (snd (checkSafety h m))"
    by (simp_all add: checkSafety_def)
  have "emergency_stop_active (monitor_run calls (snd (checkSafety h m)))" for calls
    using l by (rule monitor_run_keeps_latch)
  then show ?thesis
    using now l by (simp add: checkSafety_latched)
qed

theorem emergency_stop_latches_witness:
  "controllers monitor1 = [0]
   \<and> \<not> isSafe (controller_at store_hot 0)
   \<and> isSafe (controller_at store0 0)
   \<and> fst (checkSafety store0 monitor1) = True
   \<and> fst (checkSafety store_hot monitor1) = False
   \<and> fst (checkSafety store0 (snd (checkSafety store_hot monitor1))) = False
   \<and> fst (checkSafety store0
            (monitor_run [CheckSafety store0, IsEmergencyStopActive, AddController 1]
               (snd (checkSafety store_hot monitor1)))) = False"
proof -
  have u: "\<exists>p\<in>set (controllers monitor1). \<not> isSafe (controller_at store_hot p)"
    by (simp add: monitor1_simps store_hot_def not_isSafe_hot)
  from emergency_stop_latches [OF u]
  have "fst (checkSafety store_hot monitor1) = False"
    and "fst (checkSafety store0 (monitor_run [] (snd (checkSafety store_hot monitor1)))) = False"
    and "fst (checkSafety store0
            (monitor_run [CheckSafety store0, IsEmergencyStopActive, AddController 1]
               (snd (checkSafety store_hot monitor1)))) = False"
    by blast+
  moreover have "\<not> isSafe (controller_at store_hot 0)"
    by (simp add: store_hot_def not_isSafe_hot)
  moreover have "isSafe (controller_at store0 0)"
    by (simp add: store0_def isSafe_left_hip)
  moreover have "fst (checkSafety store0 monitor1) = True"
    by (simp add: checkSafety_store0 monitor1_simps)
  ultimately show ?thesis
    by (simp add: monitor1_simps)
qed

text \<open>
  Claim C7. When the emergency stop is not active and every registered controller is safe,
  a registered sensor that is not connected makes \<^verbatim>\<open>checkSafety()\<close> report unsafe for
  that call and leaves the monitor, and with it the latch, as it was: the next call, with
  all sensors connected and all controllers safe, reports safe.
\<close>

theorem disconnected_sensor_does_not_latch:
  assumes "\<not> emergency_stop_active m"
    and "\<forall>p\<in>set (controllers m). isSafe (controller_at h p)"
    and "(\<exists>p\<in>set (joint_sensors m). \<not> isConnected (joint_sensor_at h p))
         \<or> (\<exists>p\<in>set (imu_sensors m). \<not> isConnected (imu_sensor_at h p))"
    and "\<forall>p\<in>set (controllers m). isSafe (controller_at h' p)"
    and "\<forall>p\<in>set (joint_sensors m). isConnected (joint_sensor_at h' p)"
    and "\<forall>p\<in>set (imu_sensors m). isConnected (imu_sensor_at h' p)"
  shows "fst (checkSafety h m) = False
       \<and> snd (checkSafety h m) = m
       \<and> \<not> emergency_stop_active (snd (checkSafety h m))
       \<and> fst (checkSafety h' (snd (checkSafety h m))) = True"
proof -
  have 1: "checkSafety h m = (False, m)"
    using assms(1-3)
    by (auto simp add: checkSafety_def controllers_safe_iff joint_sensors_connected_iff
          imu_sensors_connected_iff)
  have 2: "checkSafety h' m = (True, m)"
    using assms(1,4-6)
    by (simp add: checkSafety_def controllers_safe_iff joint_sensors_connected_iff
          imu_sensors_connected_iff)
  show ?thesis using 1 2 assms(1) by simp
qed

theorem disconnected_sensor_does_not_latch_witness:
  "\<not> emergency_stop_active monitor1
   \<and> controllers monitor1 = [0] \<and> joint_sensors monitor1 = [0] \<and> imu_sensors monitor1 = [0]
   \<and> isSafe (controller_at store_unplugged 0)
   \<and> \<not> isConnected (joint_sensor_at store_unplugged 0)
   \<and> isSafe (controller_at store0 0)
   \<and> isConnected (joint_sensor_at store0 0)
   \<and> isConnected (imu_sensor_at store0 0)
   \<and> fst (checkSafety store_unplugged monitor1) = False
   \<and> snd (checkSafety store_unplugged monitor1) = monitor1
   \<and> fst (checkSafety store0 (snd (checkSafety store_unplugged monitor1))) = True"
proof -
  have a: "\<not> emergency_stop_active monitor1"
    by (simp add: monitor1_simps)
  have b0: "isSafe (controller_at store_unplugged 0)"
    by (simp add: store_unplugged_def store0_def isSafe_left_hip)
  have c0: "\<not> isConnected (joint_sensor_at store_unplugged 0)"
    by (simp add: store_unplugged_def isConnected_def)
  have d0: "isSafe (controller_at store0 0)"
    by (simp add: store0_def isSafe_left_hip)
  have e0: "isConnected (joint_sensor_at store0 0)"
    by (simp add: store0_def isConnected_def JointSensor_init_def)
  have f0: "isConnected (imu_sensor_at store0 0)"
    by (simp add: store0_def isConnected_def ImuSensor_init_def)
  have b: "\<forall>p\<in>set (controllers monitor1). isSafe (controller_at store_unplugged p)"
    using b0 by (simp add: monitor1_simps)
  have c: "(\<exists>p\<in>set (joint_sensors monitor1). \<not> isConnected (joint_sensor_at store_unplugged p))
         \<or> (\<exists>p\<in>set (imu_sensors monitor1). \<not> isConnected (imu_sensor_at store_unplugged p))"
    using c0 by (simp add: monitor1_simps)
  have d: "\<forall>p\<in>set (controllers monitor1). isSafe (controller_at store0 p)"
    using d0 by (simp add: monitor1_simps)
  have e: "\<forall>p\<in>set (joint_sensors monitor1). isConnected (joint_sensor_at store0 p)"
    using e0 by (simp add: monitor1_simps)
  have f: "\<forall>p\<in>set (imu_sensors monitor1). isConnected (imu_sensor_at store0 p)"
    using f0 by (simp add: monitor1_simps)
  from disconnected_sensor_does_not_latch [OF a b c d e f]
  have "fst (checkSafety store_unplugged monitor1) = False"
    and "snd (checkSafety store_unplugged monitor1) = monitor1"
    and "fst (checkSafety store0 (snd (checkSafety store_unplugged monitor1))) = True"
    by blast+
  then show ?thesis
    using a b0 c0 d0 e0 f0 monitor1_simps(1-3) by blast
qed

subsection \<open>Balance estimate\<close>

lemma atan2_sin_cos:
  assumes "- (pi / 2) < x" and "x < pi / 2"
  shows "atan2 (sin x) (cos x) = x"
proof -
  have "0 < cos x" using assms by (rule cos_gt_zero_pi)
  then have "atan2 (sin x) (cos x) = arctan (tan x)"
    by (simp add: atan2_def tan_def)
  then show ?thesis using assms by (simp add: arctan_tan)
qed

lemma roll_of_imu_tilted: "roll_of (orientation imu_tilted) = 1 / 10"
proof -
  have "2 * (cos (1 / 20 :: real) * sin (1 / 20)) = sin (2 * (1 / 20))"
    by (simp only: sin_double) simp
  moreover have "1 - 2 * (sin (1 / 20 :: real) * sin (1 / 20)) = cos (2 * (1 / 20))"
    by (simp only: cos_double_sin power2_eq_square)
  ultimately have "roll_of (orientation imu_tilted) = atan2 (sin (1 / 10)) (cos (1 / 10))"
    by (simp add: roll_of_def imu_tilted_def)
  moreover have "- (pi / 2) < (1 / 10 :: real)" "(1 / 10 :: real) < pi / 2"
    using pi_ge_two by linarith+
  ultimately show ?thesis by (simp add: atan2_sin_cos)
qed

lemma knee_is_no_hip: "string_find ''left_knee'' ''hip'' = None"
  by code_simp

text \<open>
  Claim C8. An update for a joint whose name contains \<^verbatim>\<open>hip\<close> maps the balance estimate
  \<open>e\<close> to \<open>0.7 * e + 0.3 * position\<close>, and an IMU update maps it to
  \<open>0.8 * e + 0.2 * roll\<close>, each applied to the estimate the previous call left. From
  the estimate 0 a hip update with position 0.5 gives 0.15, and an IMU update whose
  quaternion has roll 0.1 then gives 0.14.
\<close>

theorem balance_estimate_updates:
  "(string_find joint_name ''hip'' \<noteq> None \<longrightarrow>
      getBalanceEstimate (updateJointState joint_name st f)
        = 0.7 * getBalanceEstimate f + 0.3 * position st)
   \<and> getBalanceEstimate (updateImuData sensor_name d f)
        = 0.8 * getBalanceEstimate f + 0.2 * roll_of (orientation d)
   \<and> (string_find joint_name ''hip'' \<noteq> None \<and> getBalanceEstimate f = 0 \<and> position st = 0.5 \<longrightarrow>
        getBalanceEstimate (updateJointState joint_name st f) = 0.15
      \<and> (roll_of (orientation d) = 0.1 \<longrightarrow>
           getBalanceEstimate (updateImuData sensor_name d (updateJointState joint_name st f))
             = 0.14))"
  by (simp add: getBalanceEstimate_def updateJointState_def updateImuData_def
        updateBalanceEstimate_def updateBalanceEstimateFromImu_def Let_def)

theorem balance_estimate_updates_witness:
  "string_find ''left_hip'' ''hip'' = Some 5
   \<and> getBalanceEstimate SensorFusion_init = 0
   \<and> position ((JointState_init 0)\<lparr>position := 0.5\<rparr>) = 0.5
   \<and> roll_of (orientation imu_tilted) = 0.1
   \<and> getBalanceEstimate (updateJointState ''left_hip'' ((JointState_init 0)\<lparr>position := 0.5\<rparr>)
        SensorFusion_init) = 0.15
   \<and> getBalanceEstimate (updateImuData ''torso_imu'' imu_tilted
        (updateJointState ''left_hip'' ((JointState_init 0)\<lparr>position := 0.5\<rparr>)
           SensorFusion_init)) = 0.14"
proof -
  have h: "string_find ''left_hip'' ''hip'' = Some 5" by code_simp
  have e: "getBalanceEstimate SensorFusion_init = 0"
    by (simp add: getBalanceEstimate_def SensorFusion_init_def)
  have p: "position ((JointState_init 0)\<lparr>position := 0.5\<rparr>) = 0.5" by simp
  have r: "roll_of (orientation imu_tilted) = 0.1" by (simp add: roll_of_imu_tilted)
  show ?thesis
    using balance_estimate_updates [of "''left_hip''" "(JointState_init 0)\<lparr>position := 0.5\<rparr>"
        SensorFusion_init "''torso_imu''" imu_tilted] h e p r
    by simp
qed

subsection \<open>Norm of the IMU orientation\<close>

lemma quat_norm_scaled:
  assumes "0 < quat_norm (a, b, c, d)"
  shows "quat_norm (a / quat_norm (a, b, c, d), b / quat_norm (a, b, c, d),
                    c / quat_norm (a, b, c, d), d / quat_norm (a, b, c, d)) = 1"
proof -
  let ?S = "a * a + b * b + c * c + d * d"
  let ?n = "sqrt ?S"
  have n: "quat_norm (a, b, c, d) = ?n" by (simp add: quat_norm_def)
  have pos: "0 < ?n" using assms n by simp
  then have S: "0 < ?S" by simp
  have nn: "?n * ?n = ?S" using S by simp
  have "a / ?n * (a / ?n) + b / ?n * (b / ?n) + c / ?n * (c / ?n) + d / ?n * (d / ?n)
          = ?S / (?n * ?n)"
    by (simp only: times_divide_times_eq add_divide_distrib)
  also have "\<dots> = ?S / ?S" by (simp only: nn)
  also have "\<dots> = 1" using S by simp
  finally show ?thesis by (simp add: quat_norm_def)
qed

lemma quat_norm_pos:
  assumes "0 < d"
  shows "0 < quat_norm (a, b, c, d)"
proof -
  have "0 < d * d" using assms by simp
  moreover have "0 \<le> a * a" "0 \<le> b * b" "0 \<le> c * c" by simp_all
  ultimately have "0 < a * a + b * b + c * c + d * d" by linarith
  then show ?thesis by (simp add: quat_norm_def)
qed

lemma ImuSensor_read_orientation:
  "\<exists>a b. orientation (data (fst (ImuSensor_read clk nc s))) =
     (let (q0, q1, q2, q3) = orientation (data s); n = quat_norm (a, b, q2, q3)
      in if n > 0 then (a / n, b / n, q2 / n, q3 / n) else (a, b, q2, q3))"
  by (simp add: ImuSensor_read_def Let_def split_beta) blast

lemma ImuSensor_read_invariant:
  assumes "0 < q3_of (orientation (data s))"
  shows "0 < q3_of (orientation (data (fst (ImuSensor_read clk nc s))))
       \<and> quat_norm (orientation (data (fst (ImuSensor_read clk nc s)))) = 1"
proof -
  obtain q0 q1 q2 q3 where q: "orientation (data s) = (q0, q1, q2, q3)"
    by (cases "orientation (data s)") auto
  with assms have q3: "0 < q3" by (simp add: q3_of_def)
  obtain a b where ab: "orientation (data (fst (ImuSensor_read clk nc s))) =
     (let (q0, q1, q2, q3) = orientation (data s); n = quat_norm (a, b, q2, q3)
      in if n > 0 then (a / n, b / n, q2 / n, q3 / n) else (a, b, q2, q3))"
    using ImuSensor_read_orientation by blast
  have n: "0 < quat_norm (a, b, q2, q3)" using q3 by (rule quat_norm_pos)
  have o: "orientation (data (fst (ImuSensor_read clk nc s))) =
     (a / quat_norm (a, b, q2, q3), b / quat_norm (a, b, q2, q3),
      q2 / quat_norm (a, b, q2, q3), q3 / quat_norm (a, b, q2, q3))"
    using ab n by (simp add: q Let_def)
  show ?thesis
    unfolding o using n q3 quat_norm_scaled [OF n] by (simp add: q3_of_def)
qed

lemma ImuSensor_reads_invariant:
  assumes "0 < q3_of (orientation (data s))" and "quat_norm (orientation (data s)) = 1"
  shows "0 < q3_of (orientation (data (ImuSensor_reads ins s)))
       \<and> quat_norm (orientation (data (ImuSensor_reads ins s))) = 1"
  using assms
proof (induction ins arbitrary: s)
  case Nil
  then show ?case by simp
next
  case (Cons i ins)
  obtain clk nc where i: "i = (clk, nc)" by (cases i)
  from ImuSensor_read_invariant [OF Cons.prems(1), of clk nc]
  show ?case unfolding i by (simp add: Cons.IH)
qed

text \<open>
  Claim C4. After every sequence of calls of \<^verbatim>\<open>ImuSensor::read()\<close> on a sensor as
  constructed, with orientation \<open>(0, 0, 0, 1)\<close>, the stored orientation quaternion has
  Euclidean norm 1, and so norm 1 within the tolerance \<^verbatim>\<open>1e-9\<close>. In real arithmetic the
  norm is exactly 1: the last component stays positive, so the guard \<^verbatim>\<open>norm > 0\<close> of the
  normalisation never fails.
\<close>

theorem imu_orientation_unit_norm:
  "quat_norm (orientation (getData (ImuSensor_reads ins (ImuSensor_init nm nl now)))) = 1
   \<and> \<bar>quat_norm (orientation (getData (ImuSensor_reads ins (ImuSensor_init nm nl now)))) - 1\<bar>
       \<le> 1 / 10 ^ 9"
proof -
  have "0 < q3_of (orientation (data (ImuSensor_init nm nl now)))"
    and "quat_norm (orientation (data (ImuSensor_init nm nl now))) = 1"
    by (simp_all add: ImuSensor_init_def ImuData_init_def q3_of_def quat_norm_def)
  from ImuSensor_reads_invariant [OF this, of ins]
  show ?thesis by (simp add: getData_def)
qed

end
